theory Spec2Isabelle
  imports Complex_Main "HOL-Library.AList"
begin

section \<open>Python values\<close>

text \<open>
  The SDK moves JSON documents between a remote service and pydantic models.  The
  values involved are the ones \<^verbatim>\<open>response.json()\<close> can decode (\<^verbatim>\<open>None\<close>, booleans,
  integers, floats, strings, lists, dictionaries with string keys) and, for the timestamp
  fields of the models, \<^verbatim>\<open>datetime\<close> objects.  A dictionary is an association list
  whose keys are distinct, read with \<^const>\<open>map_of\<close>; a finite float is the rational
  number it denotes.
\<close>

record datetime =
  year :: int
  month :: int
  day :: int
  hour :: int
  minute :: int
  second :: int
  microsecond :: int
  tzinfo :: "int option"

datatype pyval =
    PNone
  | PBool bool
  | PInt int
  | PFloat rat
  | PStr string
  | PList "pyval list"
  | PDict "(string \<times> pyval) list"
  | PDatetime datetime

section \<open>The HTTP boundary\<close>

text \<open>
  \<^verbatim>\<open>requests.Response\<close>: the status code, the body text, and what the method
  \<^verbatim>\<open>json()\<close> yields for this body (\<open>None\<close> when the body is not JSON and the method
  raises).
\<close>

record response =
  status_code :: int
  body :: string
  json :: "pyval option"

text \<open>
  The exceptions that can leave the client.  \<^verbatim>\<open>requests.HTTPError\<close> is raised with
  \<^verbatim>\<open>response=self\<close>, so it carries the response; \<open>RequestException\<close> stands for the
  failures of the transport itself (no connection, timeout).
\<close>

datatype error =
    HTTPError response
  | JSONDecodeError
  | ValidationError
  | TypeError
  | RequestException

definition and_then :: "error + 'a \<Rightarrow> ('a \<Rightarrow> error + 'b) \<Rightarrow> error + 'b" where
  "and_then r f = (case r of Inl e \<Rightarrow> Inl e | Inr x \<Rightarrow> f x)"

text \<open>
  What \<^verbatim>\<open>Session.request\<close> puts on the wire: the method, the URL, the headers, the
  timeout and the \<^verbatim>\<open>json=\<close> payload (the only keyword the facade ever forwards).
\<close>

record request =
  req_method :: string
  req_url :: string
  req_headers :: "(string \<times> string) list"
  req_timeout :: int
  req_json :: "pyval option"

text \<open>
  The remote service and the wire.  \<open>respond\<close> is the service: given the requests it
  has received so far and a new request, it answers with a response or the transport
  fails.  \<open>sent\<close> is the log of the requests issued, oldest first.
\<close>

record net =
  respond :: "request list \<Rightarrow> request \<Rightarrow> error + response"
  sent :: "request list"

text \<open>
  A session of \<^verbatim>\<open>requests\<close> has its own authentication step.  The client never
  passes \<^verbatim>\<open>auth=\<close> and a new session trusts its environment, so for every request
  the library looks for credentials itself: an entry for the host in the user's netrc
  file or, failing that, a user name and password in the URL.  When it finds some, it
  sets \<^verbatim>\<open>Authorization: Basic ...\<close> on the prepared request, after the session's
  headers have been merged in.  Where the credentials come from is outside this
  repository: \<open>auth_source\<close> gives, for a URL, the header value this step sets, and
  \<open>None\<close> when it finds no credentials.
\<close>

type_synonym auth_source = "string \<Rightarrow> string option"

record session =
  headers :: "(string \<times> string) list"
  credentials :: auth_source

text \<open>
  \<^verbatim>\<open>requests.Session()\<close>, created where the library finds the credentials \<open>E\<close>.  The
  library's own default headers (User-Agent, Accept-Encoding, Accept, Connection) are
  left out: none of them is Authorization.
\<close>

definition Session :: "auth_source \<Rightarrow> session" where
  "Session E = \<lparr>headers = [], credentials = E\<rparr>"

text \<open>
  The headers of the prepared request: the session's headers, with Authorization
  overwritten when the authentication step has credentials for the URL.
\<close>

definition prepare_headers :: "session \<Rightarrow> string \<Rightarrow> (string \<times> string) list" where
  "prepare_headers s u =
     (case credentials s u of
        None \<Rightarrow> headers s
      | Some v \<Rightarrow> AList.update ''Authorization'' v (headers s))"

text \<open>
  \<^verbatim>\<open>session.request(method, url, timeout=..., json=...)\<close>: one exchange.  The log
  records the request as it first goes on the wire; \<open>respond\<close> gives the response the
  call gets back in the end.
\<close>

definition session_request ::
  "session \<Rightarrow> string \<Rightarrow> string \<Rightarrow> int \<Rightarrow> pyval option \<Rightarrow> net \<Rightarrow> (error + response) \<times> net" where
  "session_request s meth u tmo json_kw N =
     (let r = \<lparr>req_method = meth, req_url = u, req_headers = prepare_headers s u,
                req_timeout = tmo, req_json = json_kw\<rparr>
      in (respond N (sent N) r, N\<lparr>sent := sent N @ [r]\<rparr>))"

text \<open>
  \<^verbatim>\<open>Response.raise_for_status()\<close> raises \<^verbatim>\<open>HTTPError\<close> for the client errors
  (400 to 499) and the server errors (500 to 599), and for no other status code.
\<close>

definition raise_for_status :: "response \<Rightarrow> error + unit" where
  "raise_for_status resp =
     (if 400 \<le> status_code resp \<and> status_code resp < 600 then Inl (HTTPError resp)
      else Inr ())"

definition response_json :: "response \<Rightarrow> error + pyval" where
  "response_json resp = (case json resp of None \<Rightarrow> Inl JSONDecodeError | Some v \<Rightarrow> Inr v)"

section \<open>client.py: construction and the request executor\<close>

text \<open>\<^verbatim>\<open>str.rstrip(chars)\<close>: drops every trailing character that is in \<open>chars\<close>.\<close>

definition rstrip :: "string \<Rightarrow> string \<Rightarrow> string" where
  "rstrip s chars = rev (dropWhile (\<lambda>c. c \<in> set chars) (rev s))"

record client =
  base_url :: string
  api_key :: "string option"
  timeout :: int
  session :: session

text \<open>
  \<^verbatim>\<open>FlowCatalystClient.__init__(base_url, api_key=None, timeout=30)\<close>, run where the
  new session finds the credentials \<open>E\<close>.  An omitted keyword is \<open>None\<close> here.
  \<^verbatim>\<open>if api_key:\<close> is Python truthiness: \<^verbatim>\<open>None\<close> and the empty string are both
  false.
\<close>

definition FlowCatalystClient_init ::
  "auth_source \<Rightarrow> string \<Rightarrow> string option \<Rightarrow> int option \<Rightarrow> client" where
  "FlowCatalystClient_init E base_url0 api_key0 timeout0 =
     \<lparr>base_url = rstrip base_url0 ''/'',
      api_key = api_key0,
      timeout = (case timeout0 of None \<Rightarrow> 30 | Some t \<Rightarrow> t),
      session =
        (case api_key0 of
           None \<Rightarrow> Session E
         | Some k \<Rightarrow>
             if k \<noteq> [] then
               (Session E)\<lparr>headers :=
                  AList.update ''Authorization'' (''Bearer '' @ k) (headers (Session E))\<rparr>
             else Session E)\<rparr>"

text \<open>\<^verbatim>\<open>FlowCatalystClient._request(method, path, **kwargs)\<close>.\<close>

definition request_exec ::
  "client \<Rightarrow> string \<Rightarrow> string \<Rightarrow> pyval option \<Rightarrow> net \<Rightarrow> (error + pyval) \<times> net" where
  "request_exec c meth path json_kw N =
     (let u = base_url c @ path
      in case session_request (session c) meth u (timeout c) json_kw N of
           (Inl e, N') \<Rightarrow> (Inl e, N')
         | (Inr resp, N') \<Rightarrow>
             (and_then (raise_for_status resp) (\<lambda>_. response_json resp), N'))"

section \<open>types.py: the pydantic models\<close>

text \<open>
  pydantic (version 2, default configuration) validates every field when a model is
  constructed, ignores keywords that name no field, and raises one
  \<^verbatim>\<open>ValidationError\<close> when any field fails.  A value that already has the declared
  type is kept.  What else a \<^verbatim>\<open>datetime\<close> or an \<^verbatim>\<open>int\<close> field accepts (ISO 8601
  text, Unix timestamps, numeric text) is decided by pydantic's conversion code, which is
  not part of this repository: it is the parameter \<open>L\<close> of the constructors.
\<close>

record lax =
  datetime_lax :: "pyval \<Rightarrow> datetime option"
  int_lax :: "pyval \<Rightarrow> int option"

definition validate_str :: "pyval \<Rightarrow> string option" where
  "validate_str v = (case v of PStr s \<Rightarrow> Some s | _ \<Rightarrow> None)"

definition validate_literal :: "string list \<Rightarrow> pyval \<Rightarrow> string option" where
  "validate_literal allowed v =
     (case v of PStr s \<Rightarrow> if s \<in> set allowed then Some s else None | _ \<Rightarrow> None)"

definition validate_dict :: "pyval \<Rightarrow> (string \<times> pyval) list option" where
  "validate_dict v = (case v of PDict kw \<Rightarrow> Some kw | _ \<Rightarrow> None)"

definition validate_datetime :: "lax \<Rightarrow> pyval \<Rightarrow> datetime option" where
  "validate_datetime L v =
     (case v of
        PDatetime d \<Rightarrow> Some d
      | PNone \<Rightarrow> None
      | PList _ \<Rightarrow> None
      | PDict _ \<Rightarrow> None
      | _ \<Rightarrow> datetime_lax L v)"

definition validate_int :: "lax \<Rightarrow> pyval \<Rightarrow> int option" where
  "validate_int L v =
     (case v of
        PInt i \<Rightarrow> Some i
      | PNone \<Rightarrow> None
      | PList _ \<Rightarrow> None
      | PDict _ \<Rightarrow> None
      | PDatetime _ \<Rightarrow> None
      | _ \<Rightarrow> int_lax L v)"

text \<open>A required field: the keyword must be there and its value must validate.\<close>

definition required :: "(pyval \<Rightarrow> 'a option) \<Rightarrow> (string \<times> pyval) list \<Rightarrow> string \<Rightarrow> 'a option" where
  "required validate kw name = (case map_of kw name of None \<Rightarrow> None | Some v \<Rightarrow> validate v)"

text \<open>
  \<^verbatim>\<open>Optional[T] = None\<close>: an absent keyword gives the default \<^verbatim>\<open>None\<close>, an explicit
  \<^verbatim>\<open>None\<close> is kept, any other value must validate as \<open>T\<close>.
\<close>

definition optional :: "(pyval \<Rightarrow> 'a option) \<Rightarrow> (string \<times> pyval) list \<Rightarrow> string \<Rightarrow> 'a option option" where
  "optional validate kw name =
     (case map_of kw name of
        None \<Rightarrow> Some None
      | Some PNone \<Rightarrow> Some None
      | Some v \<Rightarrow> map_option Some (validate v))"

record EventType =
  et_id :: string
  et_name :: string
  et_version :: string
  et_schema :: "(string \<times> pyval) list"
  et_created_at :: datetime

record Subscription =
  sub_id :: string
  sub_event_type_id :: string
  sub_endpoint :: string
  sub_status :: string
  sub_created_at :: datetime

record DispatchJob =
  job_id :: string
  job_event_id :: string
  job_subscription_id :: string
  job_status :: string
  job_attempts :: int
  job_created_at :: datetime
  job_completed_at :: "datetime option"

text \<open>The model constructors, called with the keywords \<open>kw\<close>.\<close>

definition EventType_init :: "lax \<Rightarrow> (string \<times> pyval) list \<Rightarrow> error + EventType" where
  "EventType_init L kw =
     (case (required validate_str kw ''id'',
            required validate_str kw ''name'',
            required validate_str kw ''version'',
            required validate_dict kw ''schema'',
            required (validate_datetime L) kw ''created_at'') of
        (Some i, Some n, Some v, Some s, Some t) \<Rightarrow>
          Inr \<lparr>et_id = i, et_name = n, et_version = v, et_schema = s, et_created_at = t\<rparr>
      | _ \<Rightarrow> Inl ValidationError)"

definition Subscription_init :: "lax \<Rightarrow> (string \<times> pyval) list \<Rightarrow> error + Subscription" where
  "Subscription_init L kw =
     (case (required validate_str kw ''id'',
            required validate_str kw ''event_type_id'',
            required validate_str kw ''endpoint'',
            required (validate_literal [''active'', ''paused'', ''failed'']) kw ''status'',
            required (validate_datetime L) kw ''created_at'') of
        (Some i, Some e, Some p, Some s, Some t) \<Rightarrow>
          Inr \<lparr>sub_id = i, sub_event_type_id = e, sub_endpoint = p, sub_status = s,
               sub_created_at = t\<rparr>
      | _ \<Rightarrow> Inl ValidationError)"

definition DispatchJob_init :: "lax \<Rightarrow> (string \<times> pyval) list \<Rightarrow> error + DispatchJob" where
  "DispatchJob_init L kw =
     (case (required validate_str kw ''id'',
            required validate_str kw ''event_id'',
            required validate_str kw ''subscription_id'',
            required (validate_literal [''pending'', ''processing'', ''completed'', ''failed''])
              kw ''status'',
            required (validate_int L) kw ''attempts'',
            required (validate_datetime L) kw ''created_at'',
            optional (validate_datetime L) kw ''completed_at'') of
        (Some i, Some e, Some u, Some s, Some a, Some t, Some d) \<Rightarrow>
          Inr \<lparr>job_id = i, job_event_id = e, job_subscription_id = u, job_status = s,
               job_attempts = a, job_created_at = t, job_completed_at = d\<rparr>
      | _ \<Rightarrow> Inl ValidationError)"

section \<open>client.py: the facade\<close>

text \<open>
  \<^verbatim>\<open>Model(**item)\<close>: the argument after \<^verbatim>\<open>**\<close> must be a mapping, else Python raises
  \<^verbatim>\<open>TypeError\<close> before the model sees anything.
\<close>

definition kwargs :: "pyval \<Rightarrow> error + (string \<times> pyval) list" where
  "kwargs v = (case v of PDict kw \<Rightarrow> Inr kw | _ \<Rightarrow> Inl TypeError)"

definition new_EventType :: "lax \<Rightarrow> pyval \<Rightarrow> error + EventType" where
  "new_EventType L item = and_then (kwargs item) (EventType_init L)"

definition new_Subscription :: "lax \<Rightarrow> pyval \<Rightarrow> error + Subscription" where
  "new_Subscription L item = and_then (kwargs item) (Subscription_init L)"

definition new_DispatchJob :: "lax \<Rightarrow> pyval \<Rightarrow> error + DispatchJob" where
  "new_DispatchJob L item = and_then (kwargs item) (DispatchJob_init L)"

text \<open>
  \<^verbatim>\<open>for item in response\<close>: a list yields its elements, a dictionary its keys, a
  string its characters; nothing else that JSON decodes to is iterable.
\<close>

definition py_iter :: "pyval \<Rightarrow> error + pyval list" where
  "py_iter v =
     (case v of
        PList xs \<Rightarrow> Inr xs
      | PDict kw \<Rightarrow> Inr (map (\<lambda>kv. PStr (fst kv)) kw)
      | PStr s \<Rightarrow> Inr (map (\<lambda>ch. PStr [ch]) s)
      | _ \<Rightarrow> Inl TypeError)"

text \<open>
  \<^verbatim>\<open>[f(item) for item in items]\<close>: left to right; the first exception ends the
  comprehension and the elements built so far are dropped.
\<close>

fun comprehension :: "('a \<Rightarrow> error + 'b) \<Rightarrow> 'a list \<Rightarrow> error + 'b list" where
  "comprehension f [] = Inr []"
| "comprehension f (x # xs) =
     (case f x of
        Inl e \<Rightarrow> Inl e
      | Inr y \<Rightarrow> (case comprehension f xs of Inl e \<Rightarrow> Inl e | Inr ys \<Rightarrow> Inr (y # ys)))"

definition model_list :: "(pyval \<Rightarrow> error + 'b) \<Rightarrow> pyval \<Rightarrow> error + 'b list" where
  "model_list new resp = and_then (py_iter resp) (comprehension new)"

definition get_event_types :: "lax \<Rightarrow> client \<Rightarrow> net \<Rightarrow> (error + EventType list) \<times> net" where
  "get_event_types L c N =
     (case request_exec c ''GET'' ''/api/event-types'' None N of
        (r, N') \<Rightarrow> (and_then r (model_list (new_EventType L)), N'))"

definition get_event_type :: "lax \<Rightarrow> client \<Rightarrow> string \<Rightarrow> net \<Rightarrow> (error + EventType) \<times> net" where
  "get_event_type L c event_type_id N =
     (case request_exec c ''GET'' (''/api/event-types/'' @ event_type_id) None N of
        (r, N') \<Rightarrow> (and_then r (new_EventType L), N'))"

definition create_event_type ::
  "lax \<Rightarrow> client \<Rightarrow> string \<Rightarrow> string \<Rightarrow> (string \<times> pyval) list \<Rightarrow> net
     \<Rightarrow> (error + EventType) \<times> net" where
  "create_event_type L c name version schema N =
     (let payload = PDict [(''name'', PStr name), (''version'', PStr version),
                           (''schema'', PDict schema)]
      in case request_exec c ''POST'' ''/api/event-types'' (Some payload) N of
           (r, N') \<Rightarrow> (and_then r (new_EventType L), N'))"

definition get_subscriptions :: "lax \<Rightarrow> client \<Rightarrow> net \<Rightarrow> (error + Subscription list) \<times> net" where
  "get_subscriptions L c N =
     (case request_exec c ''GET'' ''/api/subscriptions'' None N of
        (r, N') \<Rightarrow> (and_then r (model_list (new_Subscription L)), N'))"

definition get_subscription :: "lax \<Rightarrow> client \<Rightarrow> string \<Rightarrow> net \<Rightarrow> (error + Subscription) \<times> net" where
  "get_subscription L c subscription_id N =
     (case request_exec c ''GET'' (''/api/subscriptions/'' @ subscription_id) None N of
        (r, N') \<Rightarrow> (and_then r (new_Subscription L), N'))"

text \<open>\<open>status = None\<close> is the call that omits the keyword: the default is \<^verbatim>\<open>"active"\<close>.\<close>

definition create_subscription ::
  "lax \<Rightarrow> client \<Rightarrow> string \<Rightarrow> string \<Rightarrow> string option \<Rightarrow> net \<Rightarrow> (error + Subscription) \<times> net" where
  "create_subscription L c event_type_id endpoint status N =
     (let status' = (case status of None \<Rightarrow> ''active'' | Some s \<Rightarrow> s);
          payload = PDict [(''event_type_id'', PStr event_type_id),
                           (''endpoint'', PStr endpoint),
                           (''status'', PStr status')]
      in case request_exec c ''POST'' ''/api/subscriptions'' (Some payload) N of
           (r, N') \<Rightarrow> (and_then r (new_Subscription L), N'))"

definition get_dispatch_jobs :: "lax \<Rightarrow> client \<Rightarrow> net \<Rightarrow> (error + DispatchJob list) \<times> net" where
  "get_dispatch_jobs L c N =
     (case request_exec c ''GET'' ''/api/dispatch-jobs'' None N of
        (r, N') \<Rightarrow> (and_then r (model_list (new_DispatchJob L)), N'))"

definition get_dispatch_job :: "lax \<Rightarrow> client \<Rightarrow> string \<Rightarrow> net \<Rightarrow> (error + DispatchJob) \<times> net" where
  "get_dispatch_job L c job_id' N =
     (case request_exec c ''GET'' (''/api/dispatch-jobs/'' @ job_id') None N of
        (r, N') \<Rightarrow> (and_then r (new_DispatchJob L), N'))"

section \<open>The public interface as a whole\<close>

text \<open>
  The eight public methods of \<^verbatim>\<open>FlowCatalystClient\<close> as one type of calls, what a call
  hands back, and a caller's program as a list of calls made on one client.
\<close>

datatype call =
    GetEventTypes
  | GetEventType string
  | CreateEventType string string "(string \<times> pyval) list"
  | GetSubscriptions
  | GetSubscription string
  | CreateSubscription string string "string option"
  | GetDispatchJobs
  | GetDispatchJob string

datatype returned =
    EventTypes "EventType list"
  | AnEventType EventType
  | Subscriptions "Subscription list"
  | ASubscription Subscription
  | DispatchJobs "DispatchJob list"
  | ADispatchJob DispatchJob

definition tagged :: "('a \<Rightarrow> returned) \<Rightarrow> (error + 'a) \<times> net \<Rightarrow> (error + returned) \<times> net" where
  "tagged K rn = (and_then (fst rn) (\<lambda>x. Inr (K x)), snd rn)"

fun perform :: "lax \<Rightarrow> client \<Rightarrow> call \<Rightarrow> net \<Rightarrow> (error + returned) \<times> net" where
  "perform L c GetEventTypes N = tagged EventTypes (get_event_types L c N)"
| "perform L c (GetEventType i) N = tagged AnEventType (get_event_type L c i N)"
| "perform L c (CreateEventType n v s) N = tagged AnEventType (create_event_type L c n v s N)"
| "perform L c GetSubscriptions N = tagged Subscriptions (get_subscriptions L c N)"
| "perform L c (GetSubscription i) N = tagged ASubscription (get_subscription L c i N)"
| "perform L c (CreateSubscription e p s) N = tagged ASubscription (create_subscription L c e p s N)"
| "perform L c GetDispatchJobs N = tagged DispatchJobs (get_dispatch_jobs L c N)"
| "perform L c (GetDispatchJob i) N = tagged ADispatchJob (get_dispatch_job L c i N)"

fun run :: "lax \<Rightarrow> client \<Rightarrow> call list \<Rightarrow> net \<Rightarrow> net" where
  "run L c [] N = N"
| "run L c (cl # cls) N = run L c cls (snd (perform L c cl N))"

text \<open>
  The request that \<^verbatim>\<open>_request(method, path, json=...)\<close> puts on the wire for a client,
  and what the executor makes of the reply.
\<close>

definition issued :: "client \<Rightarrow> string \<Rightarrow> string \<Rightarrow> pyval option \<Rightarrow> request" where
  "issued c meth path json_kw =
     \<lparr>req_method = meth, req_url = base_url c @ path,
      req_headers = prepare_headers (session c) (base_url c @ path),
      req_timeout = timeout c, req_json = json_kw\<rparr>"

definition outcome :: "error + response \<Rightarrow> error + pyval" where
  "outcome reply =
     and_then reply (\<lambda>resp. and_then (raise_for_status resp) (\<lambda>_. response_json resp))"

text \<open>The request each call issues: its method, path and payload.\<close>

fun call_request :: "client \<Rightarrow> call \<Rightarrow> request" where
  "call_request c GetEventTypes = issued c ''GET'' ''/api/event-types'' None"
| "call_request c (GetEventType i) = issued c ''GET'' (''/api/event-types/'' @ i) None"
| "call_request c (CreateEventType n v s) =
     issued c ''POST'' ''/api/event-types''
       (Some (PDict [(''name'', PStr n), (''version'', PStr v), (''schema'', PDict s)]))"
| "call_request c GetSubscriptions = issued c ''GET'' ''/api/subscriptions'' None"
| "call_request c (GetSubscription i) = issued c ''GET'' (''/api/subscriptions/'' @ i) None"
| "call_request c (CreateSubscription e p s) =
     issued c ''POST'' ''/api/subscriptions''
       (Some (PDict [(''event_type_id'', PStr e), (''endpoint'', PStr p),
                     (''status'', PStr (case s of None \<Rightarrow> ''active'' | Some s' \<Rightarrow> s'))]))"
| "call_request c GetDispatchJobs = issued c ''GET'' ''/api/dispatch-jobs'' None"
| "call_request c (GetDispatchJob i) = issued c ''GET'' (''/api/dispatch-jobs/'' @ i) None"

section \<open>Readings of the specification\<close>

text \<open>
  ``The base URL with its trailing slash stripped once'', read word for word: one slash
  is removed when the URL ends in one.
\<close>

definition strip_trailing_slash_once :: "string \<Rightarrow> string" where
  "strip_trailing_slash_once b = (if b \<noteq> [] \<and> last b = CHR ''/'' then butlast b else b)"

text \<open>A JSON object, as opposed to every other JSON value.\<close>

definition is_object :: "pyval \<Rightarrow> bool" where
  "is_object v = (case v of PDict _ \<Rightarrow> True | _ \<Rightarrow> False)"

text \<open>
  Reading a field of an \<^verbatim>\<open>EventType\<close> back, as the Python value the attribute
  holds: strings for the three text fields, a dictionary for the schema, a
  \<^verbatim>\<open>datetime\<close> for the creation timestamp.
\<close>

definition EventType_attr :: "EventType \<Rightarrow> string \<Rightarrow> pyval option" where
  "EventType_attr r f =
     (if f = ''id'' then Some (PStr (et_id r))
      else if f = ''name'' then Some (PStr (et_name r))
      else if f = ''version'' then Some (PStr (et_version r))
      else if f = ''schema'' then Some (PDict (et_schema r))
      else if f = ''created_at'' then Some (PDatetime (et_created_at r))
      else None)"

section \<open>Sample data\<close>

text \<open>
  Two timestamps and the ISO 8601 texts pydantic reads them from.  \<open>sample_lax\<close> knows
  these two texts only; the examples below give it no other text to convert.
\<close>

definition t0 :: datetime where
  "t0 = \<lparr>year = 2024, month = 1, day = 1, hour = 0, minute = 0, second = 0, microsecond = 0,
         tzinfo = Some 0\<rparr>"

definition t1 :: datetime where
  "t1 = \<lparr>year = 2024, month = 1, day = 1, hour = 0, minute = 5, second = 0, microsecond = 0,
         tzinfo = Some 0\<rparr>"

definition sample_lax :: lax where
  "sample_lax =
     \<lparr>datetime_lax =
        (\<lambda>v. if v = PStr ''2024-01-01T00:00:00Z'' then Some t0
             else if v = PStr ''2024-01-01T00:05:00Z'' then Some t1 else None),
      int_lax = (\<lambda>v. None)\<rparr>"

text \<open>
  Two environments: one where the library finds no credentials for any URL the examples
  use (no netrc entry, no user name in the URL), and one where the URL of the local
  service carries the user name \<^verbatim>\<open>user\<close> and the password \<^verbatim>\<open>pw\<close>, whose Basic
  value is the Base64 text of \<^verbatim>\<open>user:pw\<close>.
\<close>

definition no_credentials :: auth_source where
  "no_credentials = (\<lambda>u. None)"


text \<open>A service that answers every request with the same response.\<close>

definition serving :: "response \<Rightarrow> net" where
  "serving resp = \<lparr>respond = (\<lambda>history r. Inr resp), sent = []\<rparr>"

text \<open>
  A client for a local service, without an API key and with the default timeout, and
  some responses.  Where only the decoded document matters, the body text is abridged.
\<close>

definition local_client :: client where
  "local_client = FlowCatalystClient_init no_credentials ''http://localhost:8080'' None None"


definition multiple_choices :: response where
  "multiple_choices = \<lparr>status_code = 300, body = ''[]'', json = Some (PList [])\<rparr>"

definition not_found :: response where
  "not_found = \<lparr>status_code = 404, body = ''not found'', json = None\<rparr>"

definition unavailable :: response where
  "unavailable = \<lparr>status_code = 503, body = ''busy'', json = None\<rparr>"

definition subscription_doc :: pyval where
  "subscription_doc =
     PDict [(''id'', PStr ''s1''), (''event_type_id'', PStr ''et1''),
            (''endpoint'', PStr ''https://x/y''), (''status'', PStr ''active''),
            (''created_at'', PStr ''2024-01-01T00:00:00Z'')]"

definition created :: response where
  "created = \<lparr>status_code = 201, body = ''{...}'', json = Some subscription_doc\<rparr>"

text \<open>Documents a service may send, and the records they decode to.\<close>

definition subscription_cancelled :: "(string \<times> pyval) list" where
  "subscription_cancelled =
     [(''id'', PStr ''s1''), (''event_type_id'', PStr ''et1''),
      (''endpoint'', PStr ''https://x/y''), (''status'', PStr ''cancelled''),
      (''created_at'', PStr ''2024-01-01T00:00:00Z'')]"

definition event_type_doc :: "(string \<times> pyval) list" where
  "event_type_doc =
     [(''id'', PStr ''et1''), (''name'', PStr ''order.created''), (''version'', PStr ''1.0''),
      (''schema'', PDict [(''type'', PStr ''object''), (''required'', PList [PStr ''id''])]),
      (''created_at'', PStr ''2024-01-01T00:00:00Z'')]"

definition job_doc :: "string \<Rightarrow> string \<Rightarrow> pyval" where
  "job_doc i st =
     PDict [(''id'', PStr i), (''event_id'', PStr ''e1''), (''subscription_id'', PStr ''s1''),
            (''status'', PStr st), (''attempts'', PInt 1),
            (''created_at'', PStr ''2024-01-01T00:00:00Z'')]"

definition job_rec :: "string \<Rightarrow> string \<Rightarrow> DispatchJob" where
  "job_rec i st =
     \<lparr>job_id = i, job_event_id = ''e1'', job_subscription_id = ''s1'', job_status = st,
      job_attempts = 1, job_created_at = t0, job_completed_at = None\<rparr>"

definition three_jobs :: response where
  "three_jobs =
     \<lparr>status_code = 200, body = ''[...]'',
      json = Some (PList [job_doc ''j3'' ''pending'', job_doc ''j1'' ''processing'',
                          job_doc ''j2'' ''pending''])\<rparr>"

definition one_bad_job :: response where
  "one_bad_job =
     \<lparr>status_code = 200, body = ''[...]'',
      json = Some (PList [job_doc ''j3'' ''pending'', job_doc ''j1'' ''cancelled''])\<rparr>"

definition pending_with_completion :: response where
  "pending_with_completion =
     \<lparr>status_code = 200, body = ''{...}'',
      json = Some (PDict [(''id'', PStr ''j1''), (''event_id'', PStr ''e1''),
                          (''subscription_id'', PStr ''s1''), (''status'', PStr ''pending''),
                          (''attempts'', PInt 1),
                          (''created_at'', PStr ''2024-01-01T00:00:00Z''),
                          (''completed_at'', PStr ''2024-01-01T00:05:00Z'')])\<rparr>"

definition completed_job :: response where
  "completed_job =
     \<lparr>status_code = 200, body = ''{...}'',
      json = Some (PDict [(''id'', PStr ''j1''), (''event_id'', PStr ''e1''),
                          (''subscription_id'', PStr ''s1''), (''status'', PStr ''completed''),
                          (''attempts'', PInt 1),
                          (''created_at'', PStr ''2024-01-01T00:00:00Z''),
                          (''completed_at'', PStr ''2024-01-01T00:05:00Z'')])\<rparr>"

definition number_then_object :: response where
  "number_then_object =
     \<lparr>status_code = 200, body = ''[5, {}]'', json = Some (PList [PInt 5, PDict []])\<rparr>"

section \<open>Facts about the executor\<close>

lemma request_exec_issued:
  "request_exec c meth path j N =
     (outcome (respond N (sent N) (issued c meth path j)),
      N\<lparr>sent := sent N @ [issued c meth path j]\<rparr>)"
  unfolding request_exec_def session_request_def issued_def outcome_def and_then_def Let_def
  by (simp split: sum.splits)

lemma rstrip_Nil: "rstrip [] cs = []"
  by (simp add: rstrip_def)

lemma rstrip_snoc: "rstrip (xs @ [x]) cs = (if x \<in> set cs then rstrip xs cs else xs @ [x])"
  by (simp add: rstrip_def)

lemma rstrip_decomp: "\<exists>n. rstrip b [ch] @ replicate n ch = b"
proof (induction b rule: rev_induct)
  case Nil
  show ?case by (simp add: rstrip_Nil)
next
  case (snoc x xs)
  then obtain n where n: "rstrip xs [ch] @ replicate n ch = xs" by blast
  show ?case
  proof (cases "x = ch")
    case True
    have "rstrip (xs @ [x]) [ch] @ replicate (Suc n) ch = rstrip xs [ch] @ replicate n ch @ [ch]"
      using True by (simp add: rstrip_snoc replicate_append_same)
    also have "\<dots> = xs @ [x]"
      using n True by (simp flip: append_assoc)
    finally show ?thesis by (rule exI)
  next
    case False
    then have "rstrip (xs @ [x]) [ch] @ replicate 0 ch = xs @ [x]"
      by (simp add: rstrip_snoc)
    then show ?thesis by (rule exI)
  qed
qed

lemma rstrip_last: "rstrip b cs = u @ [x] \<Longrightarrow> x \<notin> set cs"
  by (induction b rule: rev_induct) (simp_all add: rstrip_Nil rstrip_snoc split: if_splits)

lemma perform_snd: "snd (perform L c cl N) = N\<lparr>sent := sent N @ [call_request c cl]\<rparr>"
  by (cases cl)
    (simp_all add: tagged_def get_event_types_def get_event_type_def create_event_type_def
      get_subscriptions_def get_subscription_def create_subscription_def get_dispatch_jobs_def
      get_dispatch_job_def request_exec_issued Let_def)

lemma perform_Inl:
  "outcome (respond N (sent N) (call_request c cl)) = Inl e \<Longrightarrow> fst (perform L c cl N) = Inl e"
  by (cases cl)
    (simp_all add: tagged_def get_event_types_def get_event_type_def create_event_type_def
      get_subscriptions_def get_subscription_def create_subscription_def get_dispatch_jobs_def
      get_dispatch_job_def request_exec_issued Let_def and_then_def)

lemma outcome_http_error:
  "400 \<le> status_code resp \<Longrightarrow> status_code resp < 600 \<Longrightarrow> outcome (Inr resp) = Inl (HTTPError resp)"
  by (simp add: outcome_def and_then_def raise_for_status_def)

section \<open>The URL and the timeout of a request\<close>

text \<open>
  Claim C7, as amended.  For every base URL \<open>b\<close> given to the constructor and every path,
  the executor issues exactly one request; its URL is \<open>b\<close> without any of its trailing
  slashes (\<^verbatim>\<open>rstrip("/")\<close>, applied once, in the constructor) followed by the path, and
  its timeout is the configured one, 30 when none was given.  The stripped base URL is
  \<open>b\<close> minus a run of slashes at its end, and it ends in no slash.
\<close>

theorem url_and_timeout_of_request:
  "map req_url (sent (snd (request_exec (FlowCatalystClient_init E b k t) meth path j N)))
     = map req_url (sent N) @ [rstrip b ''/'' @ path]
   \<and> map req_timeout (sent (snd (request_exec (FlowCatalystClient_init E b k t) meth path j N)))
     = map req_timeout (sent N) @ [case t of None \<Rightarrow> 30 | Some s \<Rightarrow> s]
   \<and> (\<exists>n. rstrip b ''/'' @ replicate n CHR ''/'' = b)
   \<and> (\<forall>u. rstrip b ''/'' \<noteq> u @ ''/'')"
proof -
  have "\<forall>u. rstrip b ''/'' \<noteq> u @ ''/''"
    using rstrip_last [of b "''/''" _ "CHR ''/''"] by auto
  then show ?thesis
    using rstrip_decomp [of b "CHR ''/''"]
    by (simp add: request_exec_issued issued_def FlowCatalystClient_init_def)
qed

theorem url_and_timeout_of_request_witness:
  "map req_url (sent (snd (request_exec (FlowCatalystClient_init no_credentials ''http://localhost:8080/'' None None)
       ''GET'' ''/api/event-types'' None
       (serving \<lparr>status_code = 200, body = ''[]'', json = Some (PList [])\<rparr>))))
     = [''http://localhost:8080/api/event-types'']
   \<and> map req_timeout (sent (snd (request_exec (FlowCatalystClient_init no_credentials ''http://localhost:8080/'' None None)
       ''GET'' ''/api/event-types'' None
       (serving \<lparr>status_code = 200, body = ''[]'', json = Some (PList [])\<rparr>))))
     = [30]"
  using url_and_timeout_of_request [of no_credentials "''http://localhost:8080/''" None None "''GET''"
      "''/api/event-types''" None
      "serving \<lparr>status_code = 200, body = ''[]'', json = Some (PList [])\<rparr>"]
  by (simp add: rstrip_def serving_def)

text \<open>
  The claim as written fails for a base URL that ends in two slashes: stripping one
  slash would leave \<^verbatim>\<open>http://localhost:8080/\<close> and give the URL
  \<^verbatim>\<open>http://localhost:8080//api/event-types\<close>, while the client calls
  \<^verbatim>\<open>http://localhost:8080/api/event-types\<close>.
\<close>

theorem single_strip_counterexample:
  "map req_url (sent (snd (request_exec (FlowCatalystClient_init no_credentials ''http://localhost:8080//'' None None)
       ''GET'' ''/api/event-types'' None
       (serving \<lparr>status_code = 200, body = ''[]'', json = Some (PList [])\<rparr>))))
     \<noteq> [strip_trailing_slash_once ''http://localhost:8080//'' @ ''/api/event-types'']"
  by (simp add: request_exec_issued issued_def FlowCatalystClient_init_def rstrip_def
      strip_trailing_slash_once_def serving_def)

lemma perform_pair:
  "perform L c cl N = (fst (perform L c cl N), N\<lparr>sent := sent N @ [call_request c cl]\<rparr>)"
  using perform_snd [of L c cl N] by (metis prod.collapse)

section \<open>A subscription that does not exist\<close>

text \<open>
  Claim C6.  When the service answers \<^verbatim>\<open>GET /api/subscriptions/{id}\<close> with status 404,
  \<^verbatim>\<open>get_subscription(id)\<close> fails with the \<^verbatim>\<open>HTTPError\<close> that carries this response.
  The request goes out for every identifier: the log grows by exactly this request, and
  the failure is the service's answer, not a local check.
\<close>

theorem get_subscription_404:
  assumes "respond N (sent N) (issued c ''GET'' (''/api/subscriptions/'' @ sid) None) = Inr resp"
    and "status_code resp = 404"
  shows "get_subscription L c sid N =
           (Inl (HTTPError resp),
            N\<lparr>sent := sent N @ [issued c ''GET'' (''/api/subscriptions/'' @ sid) None]\<rparr>)"
  using assms
  by (simp add: get_subscription_def request_exec_issued outcome_http_error and_then_def)

theorem get_subscription_404_witness:
  "get_subscription sample_lax local_client ''nope'' (serving not_found)
   = (Inl (HTTPError \<lparr>status_code = 404, body = ''not found'', json = None\<rparr>),
      \<lparr>respond = (\<lambda>history r. Inr not_found),
       sent = [\<lparr>req_method = ''GET'', req_url = ''http://localhost:8080/api/subscriptions/nope'',
                req_headers = [], req_timeout = 30, req_json = None\<rparr>]\<rparr>)"
  using get_subscription_404 [of "serving not_found" local_client "''nope''" not_found sample_lax]
  by (simp add: serving_def not_found_def issued_def local_client_def FlowCatalystClient_init_def
      rstrip_def Session_def prepare_headers_def no_credentials_def)

section \<open>The Authorization header\<close>






section \<open>Creating a subscription\<close>

text \<open>
  Claim C3.  \<^verbatim>\<open>create_subscription(event_type_id, endpoint)\<close>, the status left out,
  issues one \<^verbatim>\<open>POST /api/subscriptions\<close> whose JSON body holds the two arguments and
  the status \<^verbatim>\<open>"active"\<close>; and when the answer is no HTTP error and its body decodes to
  \<open>v\<close>, the call returns what \<^verbatim>\<open>Subscription(**v)\<close> gives.
\<close>

theorem create_subscription_default_status:
  "snd (create_subscription L c e p None N) =
     N\<lparr>sent := sent N @ [issued c ''POST'' ''/api/subscriptions''
        (Some (PDict [(''event_type_id'', PStr e), (''endpoint'', PStr p),
                      (''status'', PStr ''active'')]))]\<rparr>
   \<and> (\<forall>resp v.
        respond N (sent N) (issued c ''POST'' ''/api/subscriptions''
          (Some (PDict [(''event_type_id'', PStr e), (''endpoint'', PStr p),
                        (''status'', PStr ''active'')])))
          = Inr resp
        \<longrightarrow> \<not> (400 \<le> status_code resp \<and> status_code resp < 600)
        \<longrightarrow> json resp = Some v
        \<longrightarrow> fst (create_subscription L c e p None N) = new_Subscription L v)"
  by (simp add: create_subscription_def request_exec_issued outcome_def and_then_def
      raise_for_status_def response_json_def Let_def)

theorem create_subscription_default_status_witness:
  "fst (create_subscription sample_lax local_client ''et1'' ''https://x/y'' None (serving created))
     = Inr \<lparr>sub_id = ''s1'', sub_event_type_id = ''et1'', sub_endpoint = ''https://x/y'',
            sub_status = ''active'', sub_created_at = t0\<rparr>
   \<and> sent (snd (create_subscription sample_lax local_client ''et1'' ''https://x/y'' None
          (serving created)))
     = [\<lparr>req_method = ''POST'', req_url = ''http://localhost:8080/api/subscriptions'',
         req_headers = [], req_timeout = 30,
         req_json = Some (PDict [(''event_type_id'', PStr ''et1''),
                                 (''endpoint'', PStr ''https://x/y''),
                                 (''status'', PStr ''active'')])\<rparr>]"
  using create_subscription_default_status [of sample_lax local_client "''et1''" "''https://x/y''"
      "serving created"]
  by (simp add: serving_def created_def subscription_doc_def issued_def local_client_def
      FlowCatalystClient_init_def rstrip_def Session_def prepare_headers_def
      no_credentials_def new_Subscription_def kwargs_def
      and_then_def Subscription_init_def required_def validate_str_def validate_literal_def
      validate_datetime_def sample_lax_def)

section \<open>Constructing records\<close>

text \<open>
  Claim C2.  \<^verbatim>\<open>Subscription(**data)\<close> on a JSON object \<open>data\<close> fails with
  \<^verbatim>\<open>ValidationError\<close> in each of these cases: the status is anything but one of the
  strings \<^verbatim>\<open>active\<close>, \<^verbatim>\<open>paused\<close>, \<^verbatim>\<open>failed\<close> (so also \<^verbatim>\<open>cancelled\<close>, and any value
  that is no string); one of the five required fields is missing; one of the string
  fields holds a value that is no string; the creation timestamp holds a value that
  pydantic does not accept as a \<^verbatim>\<open>datetime\<close>.
\<close>

theorem Subscription_rejects_bad_data:
  "(\<forall>v. map_of kw ''status'' = Some v
        \<longrightarrow> v \<notin> PStr ` set [''active'', ''paused'', ''failed'']
        \<longrightarrow> new_Subscription L (PDict kw) = Inl ValidationError)
   \<and> (\<forall>f. f \<in> set [''id'', ''event_type_id'', ''endpoint'', ''status'', ''created_at'']
        \<longrightarrow> map_of kw f = None
        \<longrightarrow> new_Subscription L (PDict kw) = Inl ValidationError)
   \<and> (\<forall>f v. f \<in> set [''id'', ''event_type_id'', ''endpoint'']
        \<longrightarrow> map_of kw f = Some v \<longrightarrow> v \<notin> range PStr
        \<longrightarrow> new_Subscription L (PDict kw) = Inl ValidationError)
   \<and> (\<forall>v. map_of kw ''created_at'' = Some v \<longrightarrow> validate_datetime L v = None
        \<longrightarrow> new_Subscription L (PDict kw) = Inl ValidationError)"
proof -
  have status: "new_Subscription L (PDict kw) = Inl ValidationError"
    if "map_of kw ''status'' = Some v" "v \<notin> PStr ` set [''active'', ''paused'', ''failed'']" for v
    using that
    by (simp add: new_Subscription_def kwargs_def and_then_def Subscription_init_def required_def
        validate_literal_def image_iff split: option.splits pyval.splits)
  have missing: "new_Subscription L (PDict kw) = Inl ValidationError"
    if "f \<in> set [''id'', ''event_type_id'', ''endpoint'', ''status'', ''created_at'']"
      "map_of kw f = None" for f
    using that
    by (auto simp add: new_Subscription_def kwargs_def and_then_def Subscription_init_def
        required_def split: option.splits)
  have wrong: "new_Subscription L (PDict kw) = Inl ValidationError"
    if "f \<in> set [''id'', ''event_type_id'', ''endpoint'']" "map_of kw f = Some v"
      "v \<notin> range PStr" for f v
    using that
    by (auto simp add: new_Subscription_def kwargs_def and_then_def Subscription_init_def
        required_def validate_str_def split: option.splits pyval.splits)
  have stamp: "new_Subscription L (PDict kw) = Inl ValidationError"
    if "map_of kw ''created_at'' = Some v" "validate_datetime L v = None" for v
    using that
    by (simp add: new_Subscription_def kwargs_def and_then_def Subscription_init_def required_def
        split: option.splits)
  show ?thesis
    using status missing wrong stamp by blast
qed

theorem Subscription_rejects_bad_data_witness:
  "new_Subscription sample_lax (PDict subscription_cancelled) = Inl ValidationError"
proof -
  have "map_of subscription_cancelled ''status'' = Some (PStr ''cancelled'')"
    by (simp add: subscription_cancelled_def)
  moreover have "PStr ''cancelled'' \<notin> PStr ` set [''active'', ''paused'', ''failed'']"
    by (simp add: image_iff)
  ultimately show ?thesis
    using Subscription_rejects_bad_data [of subscription_cancelled sample_lax] by blast
qed

text \<open>
  Claim C8, as amended.  For a JSON object whose \<^verbatim>\<open>id\<close>, \<^verbatim>\<open>name\<close> and
  \<^verbatim>\<open>version\<close> are strings, whose \<^verbatim>\<open>schema\<close> is an object and whose
  \<^verbatim>\<open>created_at\<close> is a text or a number that pydantic's conversion reads as the
  datetime \<open>t\<close> (or is the datetime \<open>t\<close> already), \<^verbatim>\<open>EventType(**object)\<close> succeeds;
  \<^verbatim>\<open>id\<close>, \<^verbatim>\<open>name\<close>, \<^verbatim>\<open>version\<close> and \<^verbatim>\<open>schema\<close> read back as the very values
  of the object, and \<^verbatim>\<open>created_at\<close> reads back as the datetime \<open>t\<close>.  Keys that name
  no field do not matter.
\<close>

theorem EventType_round_trip:
  assumes "map_of kw ''id'' = Some (PStr i)"
    and "map_of kw ''name'' = Some (PStr n)"
    and "map_of kw ''version'' = Some (PStr v)"
    and "map_of kw ''schema'' = Some (PDict s)"
    and "map_of kw ''created_at'' = Some c"
    and "c = PDatetime t
         \<or> (c \<in> range PStr \<union> range PInt \<union> range PFloat \<union> range PBool
            \<and> datetime_lax L c = Some t)"
  shows "new_EventType L (PDict kw) =
           Inr \<lparr>et_id = i, et_name = n, et_version = v, et_schema = s, et_created_at = t\<rparr>
         \<and> (\<forall>f\<in>set [''id'', ''name'', ''version'', ''schema''].
              EventType_attr
                \<lparr>et_id = i, et_name = n, et_version = v, et_schema = s, et_created_at = t\<rparr> f
              = map_of kw f)
         \<and> EventType_attr
             \<lparr>et_id = i, et_name = n, et_version = v, et_schema = s, et_created_at = t\<rparr>
             ''created_at'' = Some (PDatetime t)"
proof -
  have "validate_datetime L c = Some t"
    using assms(6) by (auto simp add: validate_datetime_def)
  then have "new_EventType L (PDict kw) =
           Inr \<lparr>et_id = i, et_name = n, et_version = v, et_schema = s, et_created_at = t\<rparr>"
    using assms(1-5)
    by (simp add: new_EventType_def kwargs_def and_then_def EventType_init_def required_def
        validate_str_def validate_dict_def)
  then show ?thesis
    using assms(1-4) by (simp add: EventType_attr_def)
qed

theorem EventType_round_trip_witness:
  "new_EventType sample_lax (PDict event_type_doc) =
     Inr \<lparr>et_id = ''et1'', et_name = ''order.created'', et_version = ''1.0'',
          et_schema = [(''type'', PStr ''object''), (''required'', PList [PStr ''id''])],
          et_created_at = t0\<rparr>"
  using EventType_round_trip [of event_type_doc "''et1''" "''order.created''" "''1.0''"
      "[(''type'', PStr ''object''), (''required'', PList [PStr ''id''])]"
      "PStr ''2024-01-01T00:00:00Z''" t0 sample_lax]
  by (simp add: event_type_doc_def sample_lax_def)

text \<open>
  The claim as written has every field read back unchanged.  The creation timestamp of
  a JSON object is a text; the field of the record holds a \<^verbatim>\<open>datetime\<close>, which is a
  different value.
\<close>

theorem created_at_read_back_counterexample:
  "new_EventType sample_lax (PDict event_type_doc) =
     Inr \<lparr>et_id = ''et1'', et_name = ''order.created'', et_version = ''1.0'',
          et_schema = [(''type'', PStr ''object''), (''required'', PList [PStr ''id''])],
          et_created_at = t0\<rparr>
   \<and> EventType_attr
       \<lparr>et_id = ''et1'', et_name = ''order.created'', et_version = ''1.0'',
        et_schema = [(''type'', PStr ''object''), (''required'', PList [PStr ''id''])],
        et_created_at = t0\<rparr> ''created_at''
     \<noteq> map_of event_type_doc ''created_at''"
  by (simp add: new_EventType_def kwargs_def and_then_def EventType_init_def required_def
      validate_str_def validate_dict_def validate_datetime_def sample_lax_def event_type_doc_def
      EventType_attr_def)

section \<open>List operations\<close>

lemma comprehension_Inr_D:
  "comprehension f xs = Inr ys \<Longrightarrow> list_all2 (\<lambda>x y. f x = Inr y) xs ys"
  by (induction xs arbitrary: ys) (auto split: sum.splits)

lemma comprehension_Inr_I:
  "list_all2 (\<lambda>x y. f x = Inr y) xs ys \<Longrightarrow> comprehension f xs = Inr ys"
  by (induction xs ys rule: list_all2_induct) simp_all

lemma comprehension_Inr:
  "(comprehension f xs = Inr ys) = list_all2 (\<lambda>x y. f x = Inr y) xs ys"
  using comprehension_Inr_D comprehension_Inr_I by blast

lemma comprehension_member:
  "comprehension f xs = Inr ys \<Longrightarrow> y \<in> set ys \<Longrightarrow> \<exists>x \<in> set xs. f x = Inr y"
  by (induction xs arbitrary: ys) (auto split: sum.splits)

lemma comprehension_first_failure:
  "\<exists>x\<in>set xs. isl (f x) \<Longrightarrow>
     \<exists>pre x post e. xs = pre @ x # post \<and> (\<forall>y\<in>set pre. \<not> isl (f y)) \<and> f x = Inl e
       \<and> comprehension f xs = Inl e"
proof (induction xs)
  case Nil
  then show ?case by simp
next
  case (Cons a xs)
  show ?case
  proof (cases "f a")
    case (Inl e)
    then have "a # xs = [] @ a # xs \<and> (\<forall>y\<in>set []. \<not> isl (f y)) \<and> f a = Inl e
        \<and> comprehension f (a # xs) = Inl e"
      by simp
    then show ?thesis by blast
  next
    case (Inr b)
    with Cons.prems have "\<exists>x\<in>set xs. isl (f x)" by auto
    from Cons.IH [OF this] obtain pre x post e where
      *: "xs = pre @ x # post" "\<forall>y\<in>set pre. \<not> isl (f y)" "f x = Inl e"
         "comprehension f xs = Inl e"
      by blast
    have "a # xs = (a # pre) @ x # post \<and> (\<forall>y\<in>set (a # pre). \<not> isl (f y)) \<and> f x = Inl e
        \<and> comprehension f (a # xs) = Inl e"
      using * Inr by simp
    then show ?thesis by blast
  qed
qed

lemma outcome_ok:
  "\<not> (400 \<le> status_code resp \<and> status_code resp < 600) \<Longrightarrow> json resp = Some v
     \<Longrightarrow> outcome (Inr resp) = Inr v"
  by (simp add: outcome_def and_then_def raise_for_status_def response_json_def)

lemma outcome_Inr_D:
  "outcome reply = Inr doc \<Longrightarrow> \<exists>resp. reply = Inr resp \<and> json resp = Some doc"
  by (auto simp add: outcome_def and_then_def raise_for_status_def response_json_def
      split: sum.splits if_splits option.splits)

lemma new_DispatchJob_job_doc:
  "new_DispatchJob sample_lax (job_doc i st) =
     (if st \<in> set [''pending'', ''processing'', ''completed'', ''failed''] then Inr (job_rec i st)
      else Inl ValidationError)"
  by (simp add: new_DispatchJob_def kwargs_def and_then_def DispatchJob_init_def required_def
      optional_def validate_str_def validate_literal_def validate_int_def validate_datetime_def
      sample_lax_def job_doc_def job_rec_def)

text \<open>
  Claim C4.  When the service answers \<^verbatim>\<open>GET /api/dispatch-jobs\<close> with a JSON array,
  \<^verbatim>\<open>get_dispatch_jobs()\<close> returns a list \<open>jobs\<close> exactly when \<open>jobs\<close> has one record
  per element of the array, each the \<^verbatim>\<open>DispatchJob\<close> built from the element at the same
  position: nothing is reordered, dropped or added.
\<close>

theorem get_dispatch_jobs_elementwise:
  assumes "respond N (sent N) (issued c ''GET'' ''/api/dispatch-jobs'' None) = Inr resp"
    and "\<not> (400 \<le> status_code resp \<and> status_code resp < 600)"
    and "json resp = Some (PList items)"
  shows "(fst (get_dispatch_jobs L c N) = Inr jobs)
           = list_all2 (\<lambda>item job. new_DispatchJob L item = Inr job) items jobs"
  using assms
  by (simp add: get_dispatch_jobs_def request_exec_issued outcome_ok and_then_def model_list_def
      py_iter_def comprehension_Inr)

theorem get_dispatch_jobs_elementwise_witness:
  "fst (get_dispatch_jobs sample_lax local_client (serving three_jobs))
     = Inr [job_rec ''j3'' ''pending'', job_rec ''j1'' ''processing'', job_rec ''j2'' ''pending'']"
  using get_dispatch_jobs_elementwise [of "serving three_jobs" local_client three_jobs
      "[job_doc ''j3'' ''pending'', job_doc ''j1'' ''processing'', job_doc ''j2'' ''pending'']"
      sample_lax
      "[job_rec ''j3'' ''pending'', job_rec ''j1'' ''processing'', job_rec ''j2'' ''pending'']"]
  by (simp add: serving_def three_jobs_def new_DispatchJob_job_doc)

lemma new_EventType_error:
  "new_EventType L x = Inl e \<Longrightarrow> e = (if is_object x then ValidationError else TypeError)"
  by (auto simp add: new_EventType_def kwargs_def and_then_def EventType_init_def is_object_def
      split: pyval.splits option.splits)

lemma new_Subscription_error:
  "new_Subscription L x = Inl e \<Longrightarrow> e = (if is_object x then ValidationError else TypeError)"
  by (auto simp add: new_Subscription_def kwargs_def and_then_def Subscription_init_def
      is_object_def split: pyval.splits option.splits)

lemma new_DispatchJob_error:
  "new_DispatchJob L x = Inl e \<Longrightarrow> e = (if is_object x then ValidationError else TypeError)"
  by (auto simp add: new_DispatchJob_def kwargs_def and_then_def DispatchJob_init_def
      is_object_def split: pyval.splits option.splits)

lemma model_list_first_failure:
  assumes err: "\<And>x e. new x = Inl e \<Longrightarrow> e = (if is_object x then ValidationError else TypeError)"
    and bad: "\<exists>x\<in>set items. isl (new x)"
  shows "\<exists>pre x post. items = pre @ x # post \<and> (\<forall>y\<in>set pre. \<not> isl (new y)) \<and> isl (new x)
           \<and> model_list new (PList items)
               = Inl (if is_object x then ValidationError else TypeError)"
proof -
  from comprehension_first_failure [OF bad] obtain pre x post e where
    *: "items = pre @ x # post" "\<forall>y\<in>set pre. \<not> isl (new y)" "new x = Inl e"
       "comprehension new items = Inl e"
    by blast
  from err [OF *(3)] have "e = (if is_object x then ValidationError else TypeError)" .
  with * have "items = pre @ x # post \<and> (\<forall>y\<in>set pre. \<not> isl (new y)) \<and> isl (new x)
           \<and> model_list new (PList items)
               = Inl (if is_object x then ValidationError else TypeError)"
    by (simp add: model_list_def py_iter_def and_then_def)
  then show ?thesis by blast
qed

text \<open>
  Claim C10, as amended.  For each of the three list operations: when the service
  answers with a JSON array and some element cannot be made into a record, the call
  returns no list at all.  It fails with the error of the first such element, which is
  \<^verbatim>\<open>ValidationError\<close> when that element is a JSON object and \<^verbatim>\<open>TypeError\<close> when it
  is not.
\<close>

theorem list_call_fails_as_a_whole:
  assumes "\<not> (400 \<le> status_code resp \<and> status_code resp < 600)"
    and "json resp = Some (PList items)"
  shows "(respond N (sent N) (issued c ''GET'' ''/api/event-types'' None) = Inr resp
            \<longrightarrow> (\<exists>x\<in>set items. isl (new_EventType L x))
            \<longrightarrow> (\<exists>pre x post. items = pre @ x # post
                   \<and> (\<forall>y\<in>set pre. \<not> isl (new_EventType L y)) \<and> isl (new_EventType L x)
                   \<and> fst (get_event_types L c N)
                       = Inl (if is_object x then ValidationError else TypeError)))
       \<and> (respond N (sent N) (issued c ''GET'' ''/api/subscriptions'' None) = Inr resp
            \<longrightarrow> (\<exists>x\<in>set items. isl (new_Subscription L x))
            \<longrightarrow> (\<exists>pre x post. items = pre @ x # post
                   \<and> (\<forall>y\<in>set pre. \<not> isl (new_Subscription L y)) \<and> isl (new_Subscription L x)
                   \<and> fst (get_subscriptions L c N)
                       = Inl (if is_object x then ValidationError else TypeError)))
       \<and> (respond N (sent N) (issued c ''GET'' ''/api/dispatch-jobs'' None) = Inr resp
            \<longrightarrow> (\<exists>x\<in>set items. isl (new_DispatchJob L x))
            \<longrightarrow> (\<exists>pre x post. items = pre @ x # post
                   \<and> (\<forall>y\<in>set pre. \<not> isl (new_DispatchJob L y)) \<and> isl (new_DispatchJob L x)
                   \<and> fst (get_dispatch_jobs L c N)
                       = Inl (if is_object x then ValidationError else TypeError)))"
proof -
  have ok: "outcome (Inr resp) = Inr (PList items)"
    using assms by (simp add: outcome_ok)
  show ?thesis
    using model_list_first_failure [of "new_EventType L" items, OF new_EventType_error]
      model_list_first_failure [of "new_Subscription L" items, OF new_Subscription_error]
      model_list_first_failure [of "new_DispatchJob L" items, OF new_DispatchJob_error]
    by (simp add: get_event_types_def get_subscriptions_def get_dispatch_jobs_def
        request_exec_issued ok and_then_def)
qed

theorem list_call_fails_as_a_whole_witness:
  "fst (get_dispatch_jobs sample_lax local_client (serving one_bad_job)) = Inl ValidationError"
proof -
  have bad: "\<exists>x\<in>set [job_doc ''j3'' ''pending'', job_doc ''j1'' ''cancelled''].
               isl (new_DispatchJob sample_lax x)"
    by (simp add: new_DispatchJob_job_doc)
  have "respond (serving one_bad_job) (sent (serving one_bad_job))
          (issued local_client ''GET'' ''/api/dispatch-jobs'' None) = Inr one_bad_job"
    by (simp add: serving_def)
  with bad list_call_fails_as_a_whole [of one_bad_job
      "[job_doc ''j3'' ''pending'', job_doc ''j1'' ''cancelled'']" "serving one_bad_job"
      local_client sample_lax]
  obtain pre x post where
    *: "[job_doc ''j3'' ''pending'', job_doc ''j1'' ''cancelled''] = pre @ x # post"
       "fst (get_dispatch_jobs sample_lax local_client (serving one_bad_job))
          = Inl (if is_object x then ValidationError else TypeError)"
    by (auto simp add: one_bad_job_def)
  from *(1) have "x \<in> set [job_doc ''j3'' ''pending'', job_doc ''j1'' ''cancelled'']"
    by (metis in_set_conv_decomp)
  then have "is_object x"
    by (auto simp add: is_object_def job_doc_def)
  with *(2) show ?thesis by simp
qed

text \<open>
  The claim as written names \<^verbatim>\<open>ValidationError\<close> for every such failure.  For the
  array \<^verbatim>\<open>[5, {}]\<close> the second element fails record validation, yet the call fails
  with the \<^verbatim>\<open>TypeError\<close> of the first: \<^verbatim>\<open>EventType(**5)\<close> cannot unpack a number.
\<close>

theorem number_before_object_counterexample:
  "new_EventType sample_lax (PDict []) = Inl ValidationError
   \<and> fst (get_event_types sample_lax local_client (serving number_then_object)) = Inl TypeError
   \<and> fst (get_event_types sample_lax local_client (serving number_then_object))
       \<noteq> Inl ValidationError"
  by (simp add: get_event_types_def request_exec_issued outcome_ok serving_def
      number_then_object_def and_then_def model_list_def py_iter_def new_EventType_def
      kwargs_def EventType_init_def required_def)

section \<open>The completion timestamp of a dispatch job\<close>

lemma perform_one_job:
  "fst (perform L c cl N) = Inr (ADispatchJob j)
     \<Longrightarrow> \<exists>doc. outcome (respond N (sent N) (call_request c cl)) = Inr doc
              \<and> new_DispatchJob L doc = Inr j"
  by (cases cl)
    (auto simp add: tagged_def get_event_types_def get_event_type_def create_event_type_def
      get_subscriptions_def get_subscription_def create_subscription_def get_dispatch_jobs_def
      get_dispatch_job_def request_exec_issued Let_def and_then_def split: sum.splits)

lemma perform_listed_job:
  "fst (perform L c cl N) = Inr (DispatchJobs js) \<Longrightarrow> j \<in> set js
     \<Longrightarrow> \<exists>doc items v. outcome (respond N (sent N) (call_request c cl)) = Inr doc
              \<and> py_iter doc = Inr items \<and> v \<in> set items \<and> new_DispatchJob L v = Inr j"
  by (cases cl)
    (auto simp add: tagged_def get_event_types_def get_event_type_def create_event_type_def
      get_subscriptions_def get_subscription_def create_subscription_def get_dispatch_jobs_def
      get_dispatch_job_def request_exec_issued Let_def and_then_def model_list_def
      split: sum.splits dest: comprehension_member)

lemma py_iter_object:
  "py_iter doc = Inr items \<Longrightarrow> PDict kw \<in> set items \<Longrightarrow> doc = PList items"
  by (auto simp add: py_iter_def split: pyval.splits)

lemma new_DispatchJob_fields:
  assumes "new_DispatchJob L v = Inr j"
  shows "\<exists>kw. v = PDict kw
           \<and> map_of kw ''status'' = Some (PStr (job_status j))
           \<and> job_status j \<in> set [''pending'', ''processing'', ''completed'', ''failed'']
           \<and> job_completed_at j =
               (case map_of kw ''completed_at'' of
                  None \<Rightarrow> None | Some PNone \<Rightarrow> None | Some w \<Rightarrow> validate_datetime L w)"
proof -
  obtain kw where v: "v = PDict kw" and init: "DispatchJob_init L kw = Inr j"
    using assms by (auto simp add: new_DispatchJob_def kwargs_def and_then_def split: pyval.splits)
  from init have st:
    "required (validate_literal [''pending'', ''processing'', ''completed'', ''failed''])
       kw ''status'' = Some (job_status j)"
    and co: "optional (validate_datetime L) kw ''completed_at'' = Some (job_completed_at j)"
    by (auto simp add: DispatchJob_init_def split: option.splits)
  from st have "map_of kw ''status'' = Some (PStr (job_status j))
      \<and> job_status j \<in> set [''pending'', ''processing'', ''completed'', ''failed'']"
    by (auto simp add: required_def validate_literal_def
        split: option.splits pyval.splits if_splits)
  moreover from co have "job_completed_at j =
      (case map_of kw ''completed_at'' of
         None \<Rightarrow> None | Some PNone \<Rightarrow> None | Some w \<Rightarrow> validate_datetime L w)"
    by (auto simp add: optional_def split: option.splits pyval.splits)
  ultimately show ?thesis using v by blast
qed

lemma optional_present:
  "optional validate kw name = Some r
     \<Longrightarrow> (r \<noteq> None) = (\<exists>w. map_of kw name = Some w \<and> w \<noteq> PNone)"
  by (auto simp add: optional_def split: option.splits pyval.splits)

lemma new_DispatchJob_completed_at:
  assumes "new_DispatchJob L (PDict kw) = Inr j"
  shows "(job_completed_at j \<noteq> None) = (\<exists>w. map_of kw ''completed_at'' = Some w \<and> w \<noteq> PNone)"
proof -
  from assms have "optional (validate_datetime L) kw ''completed_at'' = Some (job_completed_at j)"
    by (auto simp add: new_DispatchJob_def kwargs_def and_then_def DispatchJob_init_def
        split: option.splits)
  then show ?thesis
    by (rule optional_present)
qed

text \<open>
  Claim C9, as amended.  Every \<^verbatim>\<open>DispatchJob\<close> a public method returns, alone or in a
  list, was built from a JSON object of the service's answer.  Its status is the
  object's status, one of \<^verbatim>\<open>pending\<close>, \<^verbatim>\<open>processing\<close>, \<^verbatim>\<open>completed\<close>, \<^verbatim>\<open>failed\<close>.
  Its completion timestamp is present exactly when the object has a \<^verbatim>\<open>completed_at\<close>
  that is not \<^verbatim>\<open>null\<close>, and it then is the datetime read from that value, whatever
  the status is.
\<close>

theorem completed_at_mirrors_the_server:
  assumes "fst (perform L c cl N) = Inr (ADispatchJob j)
           \<or> (\<exists>js. fst (perform L c cl N) = Inr (DispatchJobs js) \<and> j \<in> set js)"
  shows "\<exists>resp doc kw.
           respond N (sent N) (call_request c cl) = Inr resp \<and> json resp = Some doc
           \<and> (doc = PDict kw \<or> (\<exists>items. doc = PList items \<and> PDict kw \<in> set items))
           \<and> new_DispatchJob L (PDict kw) = Inr j
           \<and> map_of kw ''status'' = Some (PStr (job_status j))
           \<and> job_status j \<in> set [''pending'', ''processing'', ''completed'', ''failed'']
           \<and> (job_completed_at j \<noteq> None)
               = (\<exists>w. map_of kw ''completed_at'' = Some w \<and> w \<noteq> PNone)
           \<and> job_completed_at j =
               (case map_of kw ''completed_at'' of
                  None \<Rightarrow> None | Some PNone \<Rightarrow> None | Some w \<Rightarrow> validate_datetime L w)"
proof -
  from assms obtain doc v where doc: "outcome (respond N (sent N) (call_request c cl)) = Inr doc"
    and v: "new_DispatchJob L v = Inr j"
    and place: "doc = v \<or> (\<exists>items. py_iter doc = Inr items \<and> v \<in> set items)"
    using perform_one_job [of L c cl N j] perform_listed_job [of L c cl N _ j] by blast
  from doc obtain resp where resp: "respond N (sent N) (call_request c cl) = Inr resp"
    "json resp = Some doc"
    using outcome_Inr_D by blast
  from new_DispatchJob_fields [OF v] obtain kw where kw: "v = PDict kw"
    "map_of kw ''status'' = Some (PStr (job_status j))"
    "job_status j \<in> set [''pending'', ''processing'', ''completed'', ''failed'']"
    "job_completed_at j =
       (case map_of kw ''completed_at'' of
          None \<Rightarrow> None | Some PNone \<Rightarrow> None | Some w \<Rightarrow> validate_datetime L w)"
    by blast
  from v kw(1) have present:
    "(job_completed_at j \<noteq> None) = (\<exists>w. map_of kw ''completed_at'' = Some w \<and> w \<noteq> PNone)"
    using new_DispatchJob_completed_at by blast
  from place kw(1) have "doc = PDict kw \<or> (\<exists>items. doc = PList items \<and> PDict kw \<in> set items)"
    using py_iter_object by blast
  with resp v kw present show ?thesis by blast
qed

theorem completed_at_mirrors_the_server_witness:
  "fst (perform sample_lax local_client (GetDispatchJob ''j1'') (serving completed_job))
     = Inr (ADispatchJob ((job_rec ''j1'' ''completed'')\<lparr>job_completed_at := Some t1\<rparr>))
   \<and> (\<exists>kw. json completed_job = Some (PDict kw)
          \<and> map_of kw ''completed_at'' = Some (PStr ''2024-01-01T00:05:00Z'')
          \<and> map_of kw ''status'' = Some (PStr ''completed'')
          \<and> validate_datetime sample_lax (PStr ''2024-01-01T00:05:00Z'') = Some t1)"
proof -
  let ?j = "(job_rec ''j1'' ''completed'')\<lparr>job_completed_at := Some t1\<rparr>"
  have run: "fst (perform sample_lax local_client (GetDispatchJob ''j1'') (serving completed_job))
          = Inr (ADispatchJob ?j)"
    by (simp add: tagged_def get_dispatch_job_def request_exec_issued outcome_ok serving_def
        completed_job_def and_then_def new_DispatchJob_def kwargs_def DispatchJob_init_def
        required_def optional_def validate_str_def validate_literal_def validate_int_def
        validate_datetime_def sample_lax_def job_rec_def)
  then have "fst (perform sample_lax local_client (GetDispatchJob ''j1'') (serving completed_job))
               = Inr (ADispatchJob ?j)
             \<or> (\<exists>js. fst (perform sample_lax local_client (GetDispatchJob ''j1'')
                          (serving completed_job)) = Inr (DispatchJobs js) \<and> ?j \<in> set js)"
    by simp
  from completed_at_mirrors_the_server [OF this]
  obtain resp doc kw where
    r: "respond (serving completed_job) (sent (serving completed_job))
          (call_request local_client (GetDispatchJob ''j1'')) = Inr resp" "json resp = Some doc"
    and d: "doc = PDict kw \<or> (\<exists>items. doc = PList items \<and> PDict kw \<in> set items)"
    and st: "map_of kw ''status'' = Some (PStr (job_status ?j))"
    and present: "(job_completed_at ?j \<noteq> None)
                    = (\<exists>w. map_of kw ''completed_at'' = Some w \<and> w \<noteq> PNone)"
    and mirror: "job_completed_at ?j =
       (case map_of kw ''completed_at'' of
          None \<Rightarrow> None | Some PNone \<Rightarrow> None | Some w \<Rightarrow> validate_datetime sample_lax w)"
    by blast
  from r have resp: "resp = completed_job"
    by (simp add: serving_def)
  with r(2) d have kw: "json completed_job = Some (PDict kw)"
    by (auto simp add: completed_job_def)
  then have c: "map_of kw ''completed_at'' = Some (PStr ''2024-01-01T00:05:00Z'')"
    by (auto simp add: completed_job_def)
  with mirror have "validate_datetime sample_lax (PStr ''2024-01-01T00:05:00Z'') = Some t1"
    by simp
  moreover from st have "map_of kw ''status'' = Some (PStr ''completed'')"
    by (simp add: job_rec_def)
  ultimately show ?thesis
    using run kw c by blast
qed

text \<open>
  The claim as written ties the completion timestamp to a terminal status.  The client
  checks no such tie: when the service sends a pending job with a \<^verbatim>\<open>completed_at\<close>,
  \<^verbatim>\<open>get_dispatch_job\<close> returns a record whose status is \<^verbatim>\<open>pending\<close> and whose
  completion timestamp is present.
\<close>

theorem pending_job_with_completion_counterexample:
  "fst (perform sample_lax local_client (GetDispatchJob ''j1'') (serving pending_with_completion))
     = Inr (ADispatchJob ((job_rec ''j1'' ''pending'')\<lparr>job_completed_at := Some t1\<rparr>))
   \<and> job_status ((job_rec ''j1'' ''pending'')\<lparr>job_completed_at := Some t1\<rparr>) = ''pending''
   \<and> job_completed_at ((job_rec ''j1'' ''pending'')\<lparr>job_completed_at := Some t1\<rparr>) \<noteq> None"
  by (simp add: tagged_def get_dispatch_job_def request_exec_issued outcome_ok serving_def
      pending_with_completion_def and_then_def new_DispatchJob_def kwargs_def DispatchJob_init_def
      required_def optional_def validate_str_def validate_literal_def validate_int_def
      validate_datetime_def sample_lax_def job_rec_def)

section \<open>HTTP errors\<close>

lemma and_then_Inl:
  "and_then r f = Inl e \<Longrightarrow> r = Inl e \<or> (\<exists>x. r = Inr x \<and> f x = Inl e)"
  by (cases r) (simp_all add: and_then_def)

lemma comprehension_Inl:
  "comprehension f xs = Inl e \<Longrightarrow> \<exists>x\<in>set xs. f x = Inl e"
  by (induction xs) (auto split: sum.splits)

lemma model_list_Inl:
  "model_list new v = Inl e \<Longrightarrow> e = TypeError \<or> (\<exists>x. new x = Inl e)"
  by (auto simp add: model_list_def py_iter_def dest!: and_then_Inl comprehension_Inl
      split: pyval.splits)

lemma new_EventType_no_http: "new_EventType L x \<noteq> Inl (HTTPError r)"
  using new_EventType_error [of L x "HTTPError r"] by (auto split: if_splits)

lemma new_Subscription_no_http: "new_Subscription L x \<noteq> Inl (HTTPError r)"
  using new_Subscription_error [of L x "HTTPError r"] by (auto split: if_splits)

lemma new_DispatchJob_no_http: "new_DispatchJob L x \<noteq> Inl (HTTPError r)"
  using new_DispatchJob_error [of L x "HTTPError r"] by (auto split: if_splits)

lemma perform_http_error:
  "fst (perform L c cl N) = Inl (HTTPError r)
     \<Longrightarrow> outcome (respond N (sent N) (call_request c cl)) = Inl (HTTPError r)"
  by (cases cl)
    (auto simp add: tagged_def get_event_types_def get_event_type_def create_event_type_def
      get_subscriptions_def get_subscription_def create_subscription_def get_dispatch_jobs_def
      get_dispatch_job_def request_exec_issued Let_def new_EventType_no_http
      new_Subscription_no_http new_DispatchJob_no_http
      dest!: and_then_Inl model_list_Inl)

lemma outcome_http_error_iff:
  "(outcome (Inr resp) = Inl (HTTPError r))
     = (r = resp \<and> 400 \<le> status_code resp \<and> status_code resp < 600)"
  by (auto simp add: outcome_def and_then_def raise_for_status_def response_json_def
      split: option.splits)

text \<open>
  Claim C1, as amended.  Whatever public method is called, it issues exactly one
  request.  When the response to it has a status code from 400 to 599 the call fails
  with the \<^verbatim>\<open>HTTPError\<close> that carries this response (its status code and its body):
  nothing is retried, recovered or swallowed.  When the response has any other status
  code, the call does not fail with an \<^verbatim>\<open>HTTPError\<close> at all.
\<close>

theorem http_error_reaches_caller:
  assumes "respond N (sent N) (call_request c cl) = Inr resp"
  shows "snd (perform L c cl N) = N\<lparr>sent := sent N @ [call_request c cl]\<rparr>
         \<and> (\<forall>r. (fst (perform L c cl N) = Inl (HTTPError r))
                  = (r = resp \<and> 400 \<le> status_code resp \<and> status_code resp < 600))"
proof -
  have "(fst (perform L c cl N) = Inl (HTTPError r))
          = (r = resp \<and> 400 \<le> status_code resp \<and> status_code resp < 600)" for r
  proof
    assume "fst (perform L c cl N) = Inl (HTTPError r)"
    then have "outcome (Inr resp) = Inl (HTTPError r)"
      using perform_http_error [of L c cl N r] assms by simp
    then show "r = resp \<and> 400 \<le> status_code resp \<and> status_code resp < 600"
      by (simp add: outcome_http_error_iff)
  next
    assume "r = resp \<and> 400 \<le> status_code resp \<and> status_code resp < 600"
    then have "outcome (respond N (sent N) (call_request c cl)) = Inl (HTTPError r)"
      using assms by (simp add: outcome_http_error_iff)
    then show "fst (perform L c cl N) = Inl (HTTPError r)"
      by (rule perform_Inl)
  qed
  then show ?thesis
    by (simp add: perform_snd del: perform.simps)
qed

theorem http_error_reaches_caller_witness:
  "perform sample_lax local_client (GetDispatchJob ''j1'') (serving unavailable)
     = (Inl (HTTPError \<lparr>status_code = 503, body = ''busy'', json = None\<rparr>),
        \<lparr>respond = (\<lambda>history r. Inr unavailable),
         sent = [\<lparr>req_method = ''GET'', req_url = ''http://localhost:8080/api/dispatch-jobs/j1'',
                  req_headers = [], req_timeout = 30, req_json = None\<rparr>]\<rparr>)
   \<and> fst (perform sample_lax local_client GetEventTypes (serving multiple_choices))
       \<noteq> Inl (HTTPError multiple_choices)"
proof -
  have a: "respond (serving unavailable) (sent (serving unavailable))
             (call_request local_client (GetDispatchJob ''j1'')) = Inr unavailable"
    and b: "respond (serving multiple_choices) (sent (serving multiple_choices))
             (call_request local_client GetEventTypes) = Inr multiple_choices"
    by (simp_all add: serving_def)
  have "fst (perform sample_lax local_client (GetDispatchJob ''j1'') (serving unavailable))
          = Inl (HTTPError unavailable)"
    using http_error_reaches_caller [OF a, of sample_lax] by (simp add: unavailable_def)
  moreover have "snd (perform sample_lax local_client (GetDispatchJob ''j1'') (serving unavailable))
          = (serving unavailable)\<lparr>sent := sent (serving unavailable)
               @ [call_request local_client (GetDispatchJob ''j1'')]\<rparr>"
    using http_error_reaches_caller [OF a, of sample_lax] by blast
  moreover have "fst (perform sample_lax local_client GetEventTypes (serving multiple_choices))
          \<noteq> Inl (HTTPError multiple_choices)"
    using http_error_reaches_caller [OF b, of sample_lax] by (simp add: multiple_choices_def)
  ultimately show ?thesis
    by (simp add: prod_eq_iff serving_def unavailable_def issued_def local_client_def
        FlowCatalystClient_init_def rstrip_def Session_def prepare_headers_def no_credentials_def
        del: perform.simps)
qed

text \<open>
  The claim as written covers every status code outside 200 to 299.  A response with
  status 300 and a JSON array as its body is not an error for \<^verbatim>\<open>raise_for_status\<close>:
  \<^verbatim>\<open>get_event_types\<close> returns the empty list.
\<close>

theorem status_300_counterexample:
  "fst (get_event_types sample_lax local_client (serving multiple_choices)) = Inr []
   \<and> fst (get_event_types sample_lax local_client (serving multiple_choices))
       \<noteq> Inl (HTTPError multiple_choices)"
  by (simp add: get_event_types_def request_exec_issued outcome_def and_then_def
      raise_for_status_def response_json_def serving_def model_list_def py_iter_def
      multiple_choices_def)

end
